theory Spec2Isabelle
  imports Main "HOL-Library.AList"
begin

section \<open>Platform: JavaScript values, JSON text, base64, HTTP\<close>

text \<open>
  The SDK of \<^verbatim>\<open>packages/server/src/core/sdk/index.ts\<close> shapes plain JavaScript data,
  serialises it with \<^verbatim>\<open>JSON.stringify\<close>, and hands it to \<^verbatim>\<open>fetch\<close>.
  A JavaScript value is a tree; an object is the list of its own enumerable entries in
  enumeration order (the order of \<^verbatim>\<open>Object.entries\<close>), so its keys are distinct.
  Strings are byte strings (the UTF-8 encoding that \<^verbatim>\<open>Buffer.from\<close> and the request
  body use), numbers are integers (sizes, page and part numbers, which JavaScript writes in
  plain decimal), and a \<^verbatim>\<open>Date\<close> carries the text its \<^verbatim>\<open>toISOString\<close> gives
  (\<open>None\<close> for an invalid date).
\<close>

datatype jsval =
    Undefined
  | Null
  | Bool bool
  | Num int
  | Str string
  | JDate "string option"
  | Arr "jsval list"
  | Obj "(string \<times> jsval) list"

datatype error =
    EdgeStoreCredentialsError
  | Error string
  | SyntaxError
  | TypeError

text \<open>An asynchronous call yields the requests it issued (its calls of \<^verbatim>\<open>fetch\<close>), in
  order, and either the error it rejects with or the value it resolves to.\<close>

record request =
  req_url :: string
  req_method :: string
  req_body :: string
  req_headers :: "(string \<times> string) list"

record response =
  status :: nat
  bodyText :: string
  json :: "jsval option"

type_synonym 'a io = "request list \<times> (error + 'a)"

text \<open>\<^verbatim>\<open>res.ok\<close> of the Fetch standard: the status is in the range 200 to 299.
  \<open>bodyText r\<close> is what \<^verbatim>\<open>res.text()\<close> resolves to; \<open>json r\<close> is what
  \<^verbatim>\<open>res.json()\<close> resolves to, \<open>None\<close> when the body is not JSON text, where
  \<^verbatim>\<open>res.json()\<close> rejects with a \<^verbatim>\<open>SyntaxError\<close>.\<close>

definition ok :: "response \<Rightarrow> bool" where
  "ok r = (200 \<le> status r \<and> status r \<le> 299)"

subsection \<open>Decimal numerals and string quoting of \<^verbatim>\<open>JSON.stringify\<close>\<close>

definition digit :: "nat \<Rightarrow> char" where
  "digit d = ''0123456789'' ! (d mod 10)"

fun show_nat :: "nat \<Rightarrow> string" where
  "show_nat n = (if n < 10 then [digit n] else show_nat (n div 10) @ [digit (n mod 10)])"

declare show_nat.simps [simp del]

definition show_int :: "int \<Rightarrow> string" where
  "show_int i = (if i < 0 then CHR ''-'' # show_nat (nat (- i)) else show_nat (nat i))"

definition hex_digit :: "nat \<Rightarrow> char" where
  "hex_digit d = ''0123456789abcdef'' ! (d mod 16)"

definition quote_char :: "char \<Rightarrow> string" where
  "quote_char c =
     (if c = CHR 0x22 then [CHR 0x5C, CHR 0x22]
      else if c = CHR 0x5C then [CHR 0x5C, CHR 0x5C]
      else if c = CHR 0x08 then [CHR 0x5C, CHR ''b'']
      else if c = CHR 0x0C then [CHR 0x5C, CHR ''f'']
      else if c = CHR 0x0A then [CHR 0x5C, CHR ''n'']
      else if c = CHR 0x0D then [CHR 0x5C, CHR ''r'']
      else if c = CHR 0x09 then [CHR 0x5C, CHR ''t'']
      else if (of_char c :: nat) < 32
        then [CHR 0x5C, CHR ''u'', CHR ''0'', CHR ''0'',
              hex_digit (of_char c div 16), hex_digit (of_char c mod 16)]
      else [c])"

definition quote :: "string \<Rightarrow> string" where
  "quote s = CHR 0x22 # concat (map quote_char s) @ [CHR 0x22]"

fun join :: "string \<Rightarrow> string list \<Rightarrow> string" where
  "join sep [] = []"
| "join sep [x] = x"
| "join sep (x # y # ys) = x @ sep @ join sep (y # ys)"

subsection \<open>\<^verbatim>\<open>JSON.stringify\<close>\<close>

text \<open>\<open>JSON_stringify v\<close> is \<open>None\<close> where \<^verbatim>\<open>JSON.stringify\<close> returns
  \<^verbatim>\<open>undefined\<close>. An undefined array element is written \<^verbatim>\<open>null\<close>; an object entry
  whose value is undefined is left out.\<close>

fun JSON_stringify :: "jsval \<Rightarrow> string option"
  and stringify_elements :: "jsval list \<Rightarrow> string list"
  and stringify_entries :: "(string \<times> jsval) list \<Rightarrow> string list" where
  "JSON_stringify Undefined = None"
| "JSON_stringify Null = Some ''null''"
| "JSON_stringify (Bool b) = Some (if b then ''true'' else ''false'')"
| "JSON_stringify (Num n) = Some (show_int n)"
| "JSON_stringify (Str s) = Some (quote s)"
| "JSON_stringify (JDate d) = (case d of None \<Rightarrow> Some ''null'' | Some t \<Rightarrow> Some (quote t))"
| "JSON_stringify (Arr xs) = Some (''['' @ join '','' (stringify_elements xs) @ '']'')"
| "JSON_stringify (Obj fs) = Some (''{'' @ join '','' (stringify_entries fs) @ ''}'')"
| "stringify_elements [] = []"
| "stringify_elements (x # xs) =
     (case JSON_stringify x of None \<Rightarrow> ''null'' | Some s \<Rightarrow> s) # stringify_elements xs"
| "stringify_entries [] = []"
| "stringify_entries ((k, v) # fs) =
     (case JSON_stringify v of
        None \<Rightarrow> stringify_entries fs
      | Some s \<Rightarrow> (quote k @ '':'' @ s) # stringify_entries fs)"

text \<open>The serialisation of an object, as \<^verbatim>\<open>makeRequest\<close> applies it to its
  \<^verbatim>\<open>body: object\<close>.\<close>

definition stringify_object :: "(string \<times> jsval) list \<Rightarrow> string" where
  "stringify_object fs = ''{'' @ join '','' (stringify_entries fs) @ ''}''"

subsection \<open>\<^verbatim>\<open>Buffer.from(s).toString('base64')\<close>\<close>

definition base64_alphabet :: string where
  "base64_alphabet = ''ABCDEFGHIJKLMNOPQRSTUVWXYZabcdefghijklmnopqrstuvwxyz0123456789+/''"

definition base64_digit :: "nat \<Rightarrow> char" where
  "base64_digit n = base64_alphabet ! (n mod 64)"

fun base64 :: "string \<Rightarrow> string" where
  "base64 [] = []"
| "base64 [a] =
     (let n = (of_char a :: nat) * 65536
      in [base64_digit (n div 262144), base64_digit (n div 4096), CHR ''='', CHR ''=''])"
| "base64 [a, b] =
     (let n = (of_char a :: nat) * 65536 + of_char b * 256
      in [base64_digit (n div 262144), base64_digit (n div 4096), base64_digit (n div 64),
          CHR ''=''])"
| "base64 (a # b # c # rest) =
     (let n = (of_char a :: nat) * 65536 + of_char b * 256 + of_char c
      in [base64_digit (n div 262144), base64_digit (n div 4096), base64_digit (n div 64),
          base64_digit n] @ base64 rest)"

subsection \<open>Property access\<close>

text \<open>Reading a property of \<^verbatim>\<open>null\<close> or \<^verbatim>\<open>undefined\<close> throws a
  \<^verbatim>\<open>TypeError\<close>; an object gives the entry's value, or \<^verbatim>\<open>undefined\<close> when it
  has none; the other values have none of the properties read here.\<close>

fun get_prop :: "jsval \<Rightarrow> string \<Rightarrow> error + jsval" where
  "get_prop Undefined k = Inl TypeError"
| "get_prop Null k = Inl TypeError"
| "get_prop (Obj fs) k = Inr (case map_of fs k of None \<Rightarrow> Undefined | Some v \<Rightarrow> v)"
| "get_prop v k = Inr Undefined"

section \<open>The request primitive\<close>

text \<open>\<open>env\<close> is \<^verbatim>\<open>process.env\<close>, taken to be the same when the module is loaded and
  when its functions are called; \<open>fetch\<close> is the network: it rejects or resolves to a
  response.\<close>

type_synonym env = "string \<Rightarrow> string option"
type_synonym fetch = "request \<Rightarrow> error + response"

definition API_ENDPOINT :: "env \<Rightarrow> string" where
  "API_ENDPOINT env =
     (case env ''EDGE_STORE_API_ENDPOINT'' of
        None \<Rightarrow> ''https://api.edgestore.dev''
      | Some v \<Rightarrow> v)"

definition makeRequest ::
  "fetch \<Rightarrow> env \<Rightarrow> (string \<times> jsval) list \<Rightarrow> string \<Rightarrow> string \<Rightarrow> string \<Rightarrow> jsval io" where
  "makeRequest fetch env body accessKey secretKey path =
     (let req = \<lparr>req_url = API_ENDPOINT env @ path,
                 req_method = ''POST'',
                 req_body = stringify_object body,
                 req_headers = [(''Content-Type'', ''application/json''),
                            (''Authorization'',
                             ''Basic '' @ base64 (accessKey @ '':'' @ secretKey))]\<rparr>
      in case fetch req of
           Inl e \<Rightarrow> ([req], Inl e)
         | Inr res \<Rightarrow>
             if \<not> ok res
             then ([req], Inl (Error (''Failed to make request to '' @ path @ '': '' @ bodyText res)))
             else (case json res of
                     None \<Rightarrow> ([req], Inl SyntaxError)
                   | Some v \<Rightarrow> ([req], Inr v)))"

text \<open>What an \<^verbatim>\<open>async\<close> function does with an awaited result: a rejection is passed on,
  a value is handed to the rest of the body, which sends nothing more.\<close>

definition await_then :: "'a io \<Rightarrow> ('a \<Rightarrow> error + 'b) \<Rightarrow> 'b io" where
  "await_then m k = (case m of (sent, Inl e) \<Rightarrow> (sent, Inl e) | (sent, Inr v) \<Rightarrow> (sent, k v))"

definition bind_error :: "error + 'a \<Rightarrow> ('a \<Rightarrow> error + 'b) \<Rightarrow> error + 'b" where
  "bind_error m k = (case m of Inl e \<Rightarrow> Inl e | Inr v \<Rightarrow> k v)"

text \<open>\<^verbatim>\<open>Array.prototype.map\<close> and \<^verbatim>\<open>reduce\<close> with a callback that may throw:
  the first throw ends the traversal.\<close>

fun map_throwing :: "('a \<Rightarrow> error + 'b) \<Rightarrow> 'a list \<Rightarrow> error + 'b list" where
  "map_throwing f [] = Inr []"
| "map_throwing f (x # xs) =
     (case f x of
        Inl e \<Rightarrow> Inl e
      | Inr y \<Rightarrow> (case map_throwing f xs of Inl e \<Rightarrow> Inl e | Inr ys \<Rightarrow> Inr (y # ys)))"

fun reduce_throwing :: "('s \<Rightarrow> 'a \<Rightarrow> error + 's) \<Rightarrow> 'a list \<Rightarrow> 's \<Rightarrow> error + 's" where
  "reduce_throwing f [] acc = Inr acc"
| "reduce_throwing f (x # xs) acc =
     (case f acc x of Inl e \<Rightarrow> Inl e | Inr acc' \<Rightarrow> reduce_throwing f xs acc')"

section \<open>The router as the SDK reads it\<close>

text \<open>A path parameter is an object from names to functions producing a string; a bucket
  definition lists them in order beside its access-control descriptor.\<close>

type_synonym pathParam = "(string \<times> (unit \<Rightarrow> string)) list"

record bucketDef =
  path :: "pathParam list"
  accessControl :: jsval

record bucket =
  bdef :: bucketDef

record router =
  buckets :: "(string \<times> bucket) list"

record pathSegment =
  key :: string
  val :: string

record fileInfoForUpload =
  size_info :: int
  extension :: string
  isPublic :: bool
  path_info :: "pathSegment list"
  metadata :: "(string \<times> string) list option"
  replaceTargetUrl :: "string option"

definition js_of_segment :: "pathSegment \<Rightarrow> jsval" where
  "js_of_segment p = Obj [(''key'', Str (key p)), (''value'', Str (val p))]"

definition js_of_metadata :: "(string \<times> string) list option \<Rightarrow> jsval" where
  "js_of_metadata m =
     (case m of None \<Rightarrow> Undefined | Some kvs \<Rightarrow> Obj (map (\<lambda>(k, v). (k, Str v)) kvs))"

definition js_of_optional_string :: "string option \<Rightarrow> jsval" where
  "js_of_optional_string s = (case s of None \<Rightarrow> Undefined | Some t \<Rightarrow> Str t)"

section \<open>\<^verbatim>\<open>edgeStoreRawSdk\<close>\<close>

text \<open>The callback of \<^verbatim>\<open>bucket._def.path.map\<close> in \<^verbatim>\<open>getToken\<close>.\<close>

fun pathParamSegment :: "pathParam \<Rightarrow> error + jsval" where
  "pathParamSegment [] = Inl (Error ''Missing path param'')"
| "pathParamSegment ((k, v) # paramEntries) = Inr (Obj [(''key'', Str k), (''value'', Str (v ()))])"

text \<open>The callback of the \<^verbatim>\<open>reduce\<close> over \<^verbatim>\<open>Object.entries(params.router.buckets)\<close>.
  The accumulator starts as the plain object \<^verbatim>\<open>{}\<close> and is held as the list of its own
  entries, which is what \<^verbatim>\<open>JSON.stringify\<close> writes. \<^verbatim>\<open>acc[bucketName] = ...\<close> sets
  the own entry of that name, except for the name \<^verbatim>\<open>__proto__\<close>: that one is the
  prototype accessor of a plain object, so the assignment of an object to it replaces the
  prototype of \<^verbatim>\<open>acc\<close> and leaves its own entries as they were. The right-hand side is
  evaluated, and may throw, before either.\<close>

fun reqBucket :: "(string \<times> jsval) list \<Rightarrow> string \<times> bucket \<Rightarrow> error + (string \<times> jsval) list" where
  "reqBucket acc (bucketName, b) =
     (case map_throwing pathParamSegment (path (bdef b)) of
        Inl e \<Rightarrow> Inl e
      | Inr segments \<Rightarrow>
          Inr (if bucketName = ''__proto__'' then acc
               else AList.update bucketName
                      (Obj [(''path'', Arr segments), (''accessControl'', accessControl (bdef b))])
                      acc))"

definition edgeStoreRawSdk_getToken ::
  "fetch \<Rightarrow> env \<Rightarrow> string \<Rightarrow> string \<Rightarrow> jsval \<Rightarrow> router \<Rightarrow> jsval io" where
  "edgeStoreRawSdk_getToken fetch env accessKey secretKey ctx r =
     (case reduce_throwing reqBucket (buckets r) [] of
        Inl e \<Rightarrow> ([], Inl e)
      | Inr reqBuckets \<Rightarrow>
          await_then
            (makeRequest fetch env [(''ctx'', ctx), (''buckets'', Obj reqBuckets)]
               accessKey secretKey ''/get-token'')
            (\<lambda>res. get_prop res ''token''))"

definition edgeStoreRawSdk_getFile ::
  "fetch \<Rightarrow> env \<Rightarrow> string \<Rightarrow> string \<Rightarrow> string \<Rightarrow> jsval io" where
  "edgeStoreRawSdk_getFile fetch env accessKey secretKey fileUrl =
     makeRequest fetch env [(''url'', Str fileUrl)] accessKey secretKey ''/get-file''"

definition edgeStoreRawSdk_requestUpload ::
  "fetch \<Rightarrow> env \<Rightarrow> string \<Rightarrow> string \<Rightarrow> string \<Rightarrow> string \<Rightarrow> fileInfoForUpload \<Rightarrow> jsval
     \<Rightarrow> jsval io" where
  "edgeStoreRawSdk_requestUpload fetch env accessKey secretKey bucketName bucketType fileInfo
       multipart =
     await_then
       (makeRequest fetch env
          [(''multipart'', multipart),
           (''bucketName'', Str bucketName),
           (''bucketType'', Str bucketType),
           (''isPublic'', Bool (isPublic fileInfo)),
           (''path'', Arr (map js_of_segment (path_info fileInfo))),
           (''extension'', Str (extension fileInfo)),
           (''size'', Num (size_info fileInfo)),
           (''metadata'', js_of_metadata (metadata fileInfo)),
           (''replaceTargetUrl'', js_of_optional_string (replaceTargetUrl fileInfo))]
          accessKey secretKey ''/request-upload'')
       (\<lambda>res.
          bind_error (get_prop res ''multipart'') (\<lambda>m.
          bind_error (get_prop res ''signedUrl'') (\<lambda>s.
          bind_error (get_prop res ''url'') (\<lambda>u.
            Inr (Obj [(''multipart'', m), (''signedUrl'', s), (''accessUrl'', u)])))))"

definition edgeStoreRawSdk_requestUploadParts ::
  "fetch \<Rightarrow> env \<Rightarrow> string \<Rightarrow> string \<Rightarrow> string \<Rightarrow> jsval \<Rightarrow> jsval io" where
  "edgeStoreRawSdk_requestUploadParts fetch env accessKey secretKey fileKey multipart =
     await_then
       (makeRequest fetch env [(''multipart'', multipart), (''key'', Str fileKey)]
          accessKey secretKey ''/request-upload-parts'')
       (\<lambda>res. bind_error (get_prop res ''multipart'') (\<lambda>m. Inr (Obj [(''multipart'', m)])))"

definition edgeStoreRawSdk_deleteFile ::
  "fetch \<Rightarrow> env \<Rightarrow> string \<Rightarrow> string \<Rightarrow> string \<Rightarrow> jsval io" where
  "edgeStoreRawSdk_deleteFile fetch env accessKey secretKey fileUrl =
     makeRequest fetch env [(''url'', Str fileUrl)] accessKey secretKey ''/delete-file''"

definition edgeStoreRawSdk_listFiles ::
  "fetch \<Rightarrow> env \<Rightarrow> string \<Rightarrow> string \<Rightarrow> string \<Rightarrow> jsval \<Rightarrow> jsval \<Rightarrow> jsval io" where
  "edgeStoreRawSdk_listFiles fetch env accessKey secretKey bucketName filter_arg pagination =
     makeRequest fetch env
       [(''bucketName'', Str bucketName), (''filter'', filter_arg), (''pagination'', pagination)]
       accessKey secretKey ''/list-files''"

section \<open>\<^verbatim>\<open>initEdgeStoreSdk\<close>\<close>

text \<open>The argument of the handle's \<^verbatim>\<open>listFiles\<close>. Its declared properties are
  \<^verbatim>\<open>bucketName\<close>, \<^verbatim>\<open>filter\<close> and \<^verbatim>\<open>pagination\<close>; an object passed at that type
  may carry further own properties, and of those the raw operation reads
  \<^verbatim>\<open>accessKey\<close> and \<^verbatim>\<open>secretKey\<close>. They are \<open>None\<close> when the argument has no such
  property, and strings otherwise, the type at which the raw operation takes them.\<close>

record listFilesParams =
  lf_bucketName :: string
  lf_filter :: jsval
  lf_pagination :: jsval
  lf_accessKey :: "string option"
  lf_secretKey :: "string option"

text \<open>A property of an object literal followed by a spread: the spread object's own
  property of the same name, when it has one, replaces the value written before it.\<close>

definition spread_over :: "'a \<Rightarrow> 'a option \<Rightarrow> 'a" where
  "spread_over written own = (case own of None \<Rightarrow> written | Some v \<Rightarrow> v)"

text \<open>The returned object: six functions closed over the two keys. Five of them name the
  properties they pass on; \<^verbatim>\<open>listFiles\<close> passes
  \<^verbatim>\<open>{accessKey, secretKey, ...params}\<close>.\<close>

record edgeStoreSdk =
  getToken :: "jsval \<Rightarrow> router \<Rightarrow> jsval io"
  getFile :: "string \<Rightarrow> jsval io"
  requestUpload :: "string \<Rightarrow> string \<Rightarrow> fileInfoForUpload \<Rightarrow> jsval \<Rightarrow> jsval io"
  requestUploadParts :: "string \<Rightarrow> jsval \<Rightarrow> jsval io"
  deleteFile :: "string \<Rightarrow> jsval io"
  listFiles :: "listFilesParams \<Rightarrow> jsval io"

record sdkParams =
  paramAccessKey :: "string option"
  paramSecretKey :: "string option"

text \<open>A destructuring default applies when the property is \<^verbatim>\<open>undefined\<close>, and only
  then.\<close>

definition destructure_default :: "'a option \<Rightarrow> 'a option \<Rightarrow> 'a option" where
  "destructure_default given dflt = (case given of None \<Rightarrow> dflt | Some v \<Rightarrow> Some v)"

text \<open>\<^verbatim>\<open>!key\<close> for a key that is a string or \<^verbatim>\<open>undefined\<close>.\<close>

definition falsy :: "string option \<Rightarrow> bool" where
  "falsy k = (case k of None \<Rightarrow> True | Some s \<Rightarrow> s = [])"

definition resolvedAccessKey :: "env \<Rightarrow> sdkParams option \<Rightarrow> string option" where
  "resolvedAccessKey env params =
     destructure_default (case params of None \<Rightarrow> None | Some p \<Rightarrow> paramAccessKey p)
       (env ''EDGE_STORE_ACCESS_KEY'')"

definition resolvedSecretKey :: "env \<Rightarrow> sdkParams option \<Rightarrow> string option" where
  "resolvedSecretKey env params =
     destructure_default (case params of None \<Rightarrow> None | Some p \<Rightarrow> paramSecretKey p)
       (env ''EDGE_STORE_SECRET_KEY'')"

definition boundSdk :: "fetch \<Rightarrow> env \<Rightarrow> string \<Rightarrow> string \<Rightarrow> edgeStoreSdk" where
  "boundSdk fetch env accessKey secretKey =
     \<lparr>getToken = (\<lambda>ctx r. edgeStoreRawSdk_getToken fetch env accessKey secretKey ctx r),
      getFile = (\<lambda>fileUrl. edgeStoreRawSdk_getFile fetch env accessKey secretKey fileUrl),
      requestUpload = (\<lambda>bucketName bucketType fileInfo multipart.
        edgeStoreRawSdk_requestUpload fetch env accessKey secretKey bucketName bucketType
          fileInfo multipart),
      requestUploadParts = (\<lambda>fileKey multipart.
        edgeStoreRawSdk_requestUploadParts fetch env accessKey secretKey fileKey multipart),
      deleteFile = (\<lambda>fileUrl. edgeStoreRawSdk_deleteFile fetch env accessKey secretKey fileUrl),
      listFiles = (\<lambda>params.
        edgeStoreRawSdk_listFiles fetch env
          (spread_over accessKey (lf_accessKey params))
          (spread_over secretKey (lf_secretKey params))
          (lf_bucketName params) (lf_filter params) (lf_pagination params))\<rparr>"

text \<open>\<^verbatim>\<open>params ?? {}\<close> admits a missing parameter object. Past the check both keys are
  non-empty strings, so the last branch of the case below is never taken.\<close>

definition initEdgeStoreSdk :: "fetch \<Rightarrow> env \<Rightarrow> sdkParams option \<Rightarrow> error + edgeStoreSdk" where
  "initEdgeStoreSdk fetch env params =
     (let accessKey = resolvedAccessKey env params;
          secretKey = resolvedSecretKey env params
      in if falsy accessKey \<or> falsy secretKey then Inl EdgeStoreCredentialsError
         else (case (accessKey, secretKey) of
                 (Some a, Some s) \<Rightarrow> Inr (boundSdk fetch env a s)
               | _ \<Rightarrow> Inl EdgeStoreCredentialsError))"

section \<open>The six operations, as one family\<close>

text \<open>A call of one of the six operations with its arguments, so that a statement about
  every operation is a statement about every \<open>call\<close>.\<close>

datatype call =
    GetToken jsval router
  | GetFile string
  | RequestUpload string string fileInfoForUpload jsval
  | RequestUploadParts string jsval
  | DeleteFile string
  | ListFiles string jsval jsval

fun rawCall :: "fetch \<Rightarrow> env \<Rightarrow> string \<Rightarrow> string \<Rightarrow> call \<Rightarrow> jsval io" where
  "rawCall fetch env ak sk (GetToken ctx r) = edgeStoreRawSdk_getToken fetch env ak sk ctx r"
| "rawCall fetch env ak sk (GetFile u) = edgeStoreRawSdk_getFile fetch env ak sk u"
| "rawCall fetch env ak sk (RequestUpload bn bt fi mp) =
     edgeStoreRawSdk_requestUpload fetch env ak sk bn bt fi mp"
| "rawCall fetch env ak sk (RequestUploadParts k mp) =
     edgeStoreRawSdk_requestUploadParts fetch env ak sk k mp"
| "rawCall fetch env ak sk (DeleteFile u) = edgeStoreRawSdk_deleteFile fetch env ak sk u"
| "rawCall fetch env ak sk (ListFiles bn f p) = edgeStoreRawSdk_listFiles fetch env ak sk bn f p"

text \<open>The route of each operation, as the table of operations gives it.\<close>

fun route :: "call \<Rightarrow> string" where
  "route (GetToken ctx r) = ''/get-token''"
| "route (GetFile u) = ''/get-file''"
| "route (RequestUpload bn bt fi mp) = ''/request-upload''"
| "route (RequestUploadParts k mp) = ''/request-upload-parts''"
| "route (DeleteFile u) = ''/delete-file''"
| "route (ListFiles bn f p) = ''/list-files''"

text \<open>A router with an empty path-parameter object in some bucket.\<close>

definition hasEmptyPathParam :: "router \<Rightarrow> bool" where
  "hasEmptyPathParam r = list_ex (\<lambda>(n, b). list_ex (\<lambda>p. p = []) (path (bdef b))) (buckets r)"

fun shapingFails :: "call \<Rightarrow> bool" where
  "shapingFails (GetToken ctx r) = hasEmptyPathParam r"
| "shapingFails c = False"

text \<open>What each operation returns from the value its request resolved to.\<close>

fun operationResult :: "call \<Rightarrow> jsval \<Rightarrow> error + jsval" where
  "operationResult (GetToken ctx r) v = get_prop v ''token''"
| "operationResult (GetFile u) v = Inr v"
| "operationResult (RequestUpload bn bt fi mp) v =
     (case v of
        Undefined \<Rightarrow> Inl TypeError
      | Null \<Rightarrow> Inl TypeError
      | Obj fs \<Rightarrow>
          Inr (Obj [(''multipart'', case map_of fs ''multipart'' of None \<Rightarrow> Undefined | Some x \<Rightarrow> x),
                    (''signedUrl'', case map_of fs ''signedUrl'' of None \<Rightarrow> Undefined | Some x \<Rightarrow> x),
                    (''accessUrl'', case map_of fs ''url'' of None \<Rightarrow> Undefined | Some x \<Rightarrow> x)])
      | _ \<Rightarrow> Inr (Obj [(''multipart'', Undefined), (''signedUrl'', Undefined),
                       (''accessUrl'', Undefined)]))"
| "operationResult (RequestUploadParts k mp) v =
     (case v of
        Undefined \<Rightarrow> Inl TypeError
      | Null \<Rightarrow> Inl TypeError
      | Obj fs \<Rightarrow>
          Inr (Obj [(''multipart'', case map_of fs ''multipart'' of None \<Rightarrow> Undefined | Some x \<Rightarrow> x)])
      | _ \<Rightarrow> Inr (Obj [(''multipart'', Undefined)]))"
| "operationResult (DeleteFile u) v = Inr v"
| "operationResult (ListFiles bn f p) v = Inr v"

text \<open>Fixed surroundings for concrete runs: a network that answers every request with
  the same response, and a process environment with no variable set or with the three
  variables set.\<close>

definition respond :: "response \<Rightarrow> fetch" where
  "respond res req = Inr res"

definition unset_env :: env where
  "unset_env name = None"

definition full_env :: env where
  "full_env name =
     (if name = ''EDGE_STORE_API_ENDPOINT'' then Some ''http://localhost:3001''
      else if name = ''EDGE_STORE_ACCESS_KEY'' then Some ''envAccess''
      else if name = ''EDGE_STORE_SECRET_KEY'' then Some ''envSecret''
      else None)"

definition ok_response :: response where
  "ok_response =
     \<lparr>status = 200,
      bodyText = stringify_object [(''signedUrl'', Str ''s''), (''url'', Str ''u'')],
      json = Some (Obj [(''signedUrl'', Str ''s''), (''url'', Str ''u'')])\<rparr>"

definition token_response :: response where
  "token_response =
     \<lparr>status = 201,
      bodyText = stringify_object [(''token'', Str ''t'')],
      json = Some (Obj [(''token'', Str ''t'')])\<rparr>"

definition empty_response :: response where
  "empty_response = \<lparr>status = 200, bodyText = [], json = None\<rparr>"

definition failed_response :: response where
  "failed_response = \<lparr>status = 403, bodyText = ''Forbidden'', json = None\<rparr>"

definition broken_router :: router where
  "broken_router = \<lparr>buckets = [(''images'', \<lparr>bdef = \<lparr>path = [[]], accessControl = Null\<rparr>\<rparr>)]\<rparr>"

definition sample_router :: router where
  "sample_router =
     \<lparr>buckets = [(''images'',
                  \<lparr>bdef = \<lparr>path = [[(''author'', \<lambda>u. ''me''), (''ignored'', \<lambda>u. ''x'')],
                                    [(''type'', \<lambda>u. ''post'')]],
                           accessControl = Obj [(''userRole'', Str ''admin'')]\<rparr>\<rparr>),
                 (''docs'', \<lparr>bdef = \<lparr>path = [], accessControl = Undefined\<rparr>\<rparr>)]\<rparr>"

definition proto_router :: router where
  "proto_router =
     \<lparr>buckets = [(''images'', \<lparr>bdef = \<lparr>path = [[(''author'', \<lambda>u. ''me'')]],
                                      accessControl = Null\<rparr>\<rparr>),
                 (''__proto__'', \<lparr>bdef = \<lparr>path = [[(''type'', \<lambda>u. ''post'')]],
                                         accessControl = Null\<rparr>\<rparr>)]\<rparr>"

definition overriding_params :: listFilesParams where
  "overriding_params =
     \<lparr>lf_bucketName = ''images'', lf_filter = Undefined, lf_pagination = Undefined,
      lf_accessKey = Some ''evil'', lf_secretKey = None\<rparr>"


subsection \<open>The request entry of a bucket, as the operation table words it\<close>

text \<open>Each path parameter gives one \<open>{key, value}\<close> pair, its value being what the
  parameter's function returns; a bucket gives \<open>{path, accessControl}\<close>.\<close>

definition firstEntrySegment :: "pathParam \<Rightarrow> jsval" where
  "firstEntrySegment p =
     (case p of [] \<Rightarrow> Undefined
      | (k, v) # rest \<Rightarrow> Obj [(''key'', Str k), (''value'', Str (v ()))])"

definition reqBucketEntry :: "bucket \<Rightarrow> jsval" where
  "reqBucketEntry b = Obj [(''path'', Arr (map firstEntrySegment (path (bdef b)))),
                           (''accessControl'', accessControl (bdef b))]"

section \<open>Lemmas on the request primitive\<close>

lemma makeRequest_sent:
  "fst (makeRequest fetch env b ak sk p) =
     [\<lparr>req_url = API_ENDPOINT env @ p, req_method = ''POST'', req_body = stringify_object b,
       req_headers = [(''Content-Type'', ''application/json''),
                      (''Authorization'', ''Basic '' @ base64 (ak @ '':'' @ sk))]\<rparr>]"
  by (simp add: makeRequest_def Let_def split: sum.splits option.splits)

lemma makeRequest_outcome:
  assumes "fst (makeRequest fetch env b ak sk p) = [req]" and "fetch req = Inr res"
  shows "snd (makeRequest fetch env b ak sk p) =
           (if \<not> ok res then Inl (Error (''Failed to make request to '' @ p @ '': '' @ bodyText res))
            else case json res of None \<Rightarrow> Inl SyntaxError | Some v \<Rightarrow> Inr v)"
proof -
  from assms(1) have "req = \<lparr>req_url = API_ENDPOINT env @ p, req_method = ''POST'',
       req_body = stringify_object b,
       req_headers = [(''Content-Type'', ''application/json''),
                      (''Authorization'', ''Basic '' @ base64 (ak @ '':'' @ sk))]\<rparr>"
    by (simp add: makeRequest_sent)
  with assms(2) show ?thesis
    by (simp add: makeRequest_def Let_def split: option.splits)
qed

lemma await_then_sent: "fst (await_then m k) = fst m"
  by (simp add: await_then_def split: prod.splits sum.splits)

lemma await_then_outcome: "snd (await_then m k) = bind_error (snd m) k"
  by (simp add: await_then_def bind_error_def split: prod.splits sum.splits)

lemma map_throwing_missing:
  "[] \<in> set ps \<Longrightarrow> map_throwing pathParamSegment ps = Inl (Error ''Missing path param'')"
proof (induction ps)
  case Nil
  then show ?case by simp
next
  case (Cons p ps)
  show ?case
  proof (cases p)
    case Nil
    then show ?thesis by simp
  next
    case (Cons e es)
    with Cons.prems have "[] \<in> set ps" by auto
    with Cons.IH have "map_throwing pathParamSegment ps = Inl (Error ''Missing path param'')" .
    with Cons show ?thesis by (cases e) simp
  qed
qed

lemma map_throwing_segments:
  "[] \<notin> set ps \<Longrightarrow> map_throwing pathParamSegment ps = Inr (map firstEntrySegment ps)"
proof (induction ps)
  case Nil
  then show ?case by simp
next
  case (Cons p ps)
  then obtain k v es where "p = (k, v) # es" by (cases p) auto
  with Cons show ?case by (simp add: firstEntrySegment_def)
qed

lemma reduce_reqBucket_missing:
  "(n, b) \<in> set bs \<Longrightarrow> [] \<in> set (path (bdef b)) \<Longrightarrow>
   reduce_throwing reqBucket bs acc = Inl (Error ''Missing path param'')"
proof (induction bs arbitrary: acc)
  case Nil
  then show ?case by simp
next
  case (Cons x xs)
  obtain m c where x: "x = (m, c)" by (cases x)
  show ?case
  proof (cases "[] \<in> set (path (bdef c))")
    case True
    then show ?thesis by (simp add: x map_throwing_missing)
  next
    case False
    with Cons.prems x have "(n, b) \<in> set xs" by auto
    with Cons.IH Cons.prems(2) have "\<And>acc. reduce_throwing reqBucket xs acc = Inl (Error ''Missing path param'')"
      by blast
    with False show ?thesis by (simp add: x map_throwing_segments)
  qed
qed

lemma update_fresh: "k \<notin> fst ` set al \<Longrightarrow> AList.update k v al = al @ [(k, v)]"
  by (induction al) auto

lemma reduce_reqBucket_ok:
  "\<forall>(n, b) \<in> set bs. [] \<notin> set (path (bdef b)) \<Longrightarrow> distinct (map fst bs) \<Longrightarrow>
   fst ` set bs \<inter> fst ` set acc = {} \<Longrightarrow>
   reduce_throwing reqBucket bs acc =
     Inr (acc @ map (\<lambda>(n, b). (n, reqBucketEntry b))
                  (filter (\<lambda>(n, b). n \<noteq> ''__proto__'') bs))"
proof (induction bs arbitrary: acc)
  case Nil
  then show ?case by simp
next
  case (Cons x xs)
  obtain m c where x: "x = (m, c)" by (cases x)
  from Cons.prems x have seg: "map_throwing pathParamSegment (path (bdef c)) = Inr (map firstEntrySegment (path (bdef c)))"
    by (simp add: map_throwing_segments)
  from Cons.prems x have fresh: "m \<notin> fst ` set acc" by auto
  have rest_ok: "\<forall>(n, b)\<in>set xs. [] \<notin> set (path (bdef b))" using Cons.prems(1) by simp
  have rest_distinct: "distinct (map fst xs)" using Cons.prems(2) by simp
  show ?case
  proof (cases "m = ''__proto__''")
    case True
    have step: "reqBucket acc (''__proto__'', c) = Inr acc"
      by (simp add: seg)
    have "fst ` set xs \<inter> fst ` set acc = {}" using Cons.prems(3) by auto
    with rest_ok rest_distinct
    have "reduce_throwing reqBucket xs acc =
        Inr (acc @ map (\<lambda>(n, b). (n, reqBucketEntry b))
                     (filter (\<lambda>(n, b). n \<noteq> ''__proto__'') xs))"
      by (rule Cons.IH)
    with True show ?thesis by (simp add: step x del: reqBucket.simps)
  next
    case False
    then have step: "reqBucket acc (m, c) = Inr (acc @ [(m, reqBucketEntry c)])"
      by (simp add: seg update_fresh [OF fresh] reqBucketEntry_def)
    have "fst ` set xs \<inter> fst ` set (acc @ [(m, reqBucketEntry c)]) = {}"
      using Cons.prems(2,3) x by auto
    with rest_ok rest_distinct
    have "reduce_throwing reqBucket xs (acc @ [(m, reqBucketEntry c)]) =
        Inr ((acc @ [(m, reqBucketEntry c)]) @ map (\<lambda>(n, b). (n, reqBucketEntry b))
                     (filter (\<lambda>(n, b). n \<noteq> ''__proto__'') xs))"
      by (rule Cons.IH)
    with False show ?thesis by (simp add: step x del: reqBucket.simps)
  qed
qed

lemma hasEmptyPathParam_iff:
  "hasEmptyPathParam r \<longleftrightarrow> (\<exists>(n, b) \<in> set (buckets r). [] \<in> set (path (bdef b)))"
  by (auto simp: hasEmptyPathParam_def list_ex_iff)

lemma reduce_reqBucket_succeeds:
  "\<forall>(n, b) \<in> set bs. [] \<notin> set (path (bdef b)) \<Longrightarrow>
   \<exists>rb. reduce_throwing reqBucket bs acc = Inr rb"
proof (induction bs arbitrary: acc)
  case Nil
  then show ?case by simp
next
  case (Cons x xs)
  obtain m c where x: "x = (m, c)" by (cases x)
  from Cons.prems x have "map_throwing pathParamSegment (path (bdef c))
      = Inr (map firstEntrySegment (path (bdef c)))"
    by (simp add: map_throwing_segments)
  moreover from Cons.prems have "\<forall>(n, b) \<in> set xs. [] \<notin> set (path (bdef b))" by simp
  ultimately show ?case using Cons.IH by (simp add: x)
qed

lemma awaited_outcome:
  assumes "fst (makeRequest fetch env b ak sk p) = [req]" and "fetch req = Inr res"
  shows "snd (await_then (makeRequest fetch env b ak sk p) k) =
           (if \<not> ok res then Inl (Error (''Failed to make request to '' @ p @ '': '' @ bodyText res))
            else case json res of None \<Rightarrow> Inl SyntaxError | Some v \<Rightarrow> k v)"
  by (simp add: await_then_outcome makeRequest_outcome [OF assms] bind_error_def
      split: option.splits)

lemma requestUpload_result:
  "bind_error (get_prop v ''multipart'') (\<lambda>m.
   bind_error (get_prop v ''signedUrl'') (\<lambda>s.
   bind_error (get_prop v ''url'') (\<lambda>u.
     Inr (Obj [(''multipart'', m), (''signedUrl'', s), (''accessUrl'', u)]))))
   = operationResult (RequestUpload bn bt fi mp) v"
  by (cases v) (simp_all add: bind_error_def)

lemma requestUploadParts_result:
  "bind_error (get_prop v ''multipart'') (\<lambda>m. Inr (Obj [(''multipart'', m)]))
   = operationResult (RequestUploadParts k mp) v"
  by (cases v) (simp_all add: bind_error_def)

lemma await_then_Inr: "await_then m Inr = m"
  by (simp add: await_then_def split: prod.splits sum.splits)

lemma getToken_result: "(\<lambda>res. get_prop res ''token'') = operationResult (GetToken ctx r)"
  by (rule ext) simp

lemma requestUpload_result_fun:
  "(\<lambda>v. bind_error (get_prop v ''multipart'') (\<lambda>m.
        bind_error (get_prop v ''signedUrl'') (\<lambda>s.
        bind_error (get_prop v ''url'') (\<lambda>u.
          Inr (Obj [(''multipart'', m), (''signedUrl'', s), (''accessUrl'', u)])))))
   = operationResult (RequestUpload bn bt fi mp)"
  by (rule ext) (rule requestUpload_result)

lemma requestUploadParts_result_fun:
  "(\<lambda>v. bind_error (get_prop v ''multipart'') (\<lambda>m. Inr (Obj [(''multipart'', m)])))
   = operationResult (RequestUploadParts k mp)"
  by (rule ext) (rule requestUploadParts_result)

lemma plain_result: "operationResult (GetFile u) = Inr" "operationResult (DeleteFile u) = Inr"
  "operationResult (ListFiles bn f p) = Inr"
  by (rule ext, simp)+

lemma getToken_fails_unsent:
  assumes "hasEmptyPathParam r"
  shows "edgeStoreRawSdk_getToken fetch env ak sk ctx r = ([], Inl (Error ''Missing path param''))"
proof -
  from assms obtain n b where "(n, b) \<in> set (buckets r)" "[] \<in> set (path (bdef b))"
    by (auto simp: hasEmptyPathParam_iff)
  then have "reduce_throwing reqBucket (buckets r) [] = Inl (Error ''Missing path param'')"
    by (rule reduce_reqBucket_missing)
  then show ?thesis by (simp add: edgeStoreRawSdk_getToken_def)
qed

lemma rawCall_shape:
  assumes "\<not> shapingFails c"
  shows "\<exists>b. rawCall fetch env ak sk c =
           await_then (makeRequest fetch env b ak sk (route c)) (operationResult c)"
proof (cases c)
  case (GetToken ctx r)
  with assms have "\<forall>(n, b) \<in> set (buckets r). [] \<notin> set (path (bdef b))"
    by (auto simp: hasEmptyPathParam_iff)
  then obtain rb where "reduce_throwing reqBucket (buckets r) [] = Inr rb"
    using reduce_reqBucket_succeeds by blast
  then have "rawCall fetch env ak sk c =
      await_then (makeRequest fetch env [(''ctx'', ctx), (''buckets'', Obj rb)] ak sk (route c))
        (operationResult c)"
    by (simp add: GetToken edgeStoreRawSdk_getToken_def getToken_result [of ctx r]
        del: operationResult.simps)
  then show ?thesis ..
next
  case (GetFile u)
  have "rawCall fetch env ak sk c =
      await_then (makeRequest fetch env [(''url'', Str u)] ak sk (route c)) (operationResult c)"
    by (simp add: GetFile edgeStoreRawSdk_getFile_def plain_result await_then_Inr
        del: operationResult.simps)
  then show ?thesis ..
next
  case (RequestUpload bn bt fi mp)
  have "rawCall fetch env ak sk c =
      await_then (makeRequest fetch env
          [(''multipart'', mp),
           (''bucketName'', Str bn),
           (''bucketType'', Str bt),
           (''isPublic'', Bool (isPublic fi)),
           (''path'', Arr (map js_of_segment (path_info fi))),
           (''extension'', Str (extension fi)),
           (''size'', Num (size_info fi)),
           (''metadata'', js_of_metadata (metadata fi)),
           (''replaceTargetUrl'', js_of_optional_string (replaceTargetUrl fi))]
          ak sk (route c)) (operationResult c)"
    by (simp add: RequestUpload edgeStoreRawSdk_requestUpload_def
        requestUpload_result_fun [of bn bt fi mp] del: operationResult.simps)
  then show ?thesis ..
next
  case (RequestUploadParts k mp)
  have "rawCall fetch env ak sk c =
      await_then (makeRequest fetch env [(''multipart'', mp), (''key'', Str k)] ak sk (route c))
        (operationResult c)"
    by (simp add: RequestUploadParts edgeStoreRawSdk_requestUploadParts_def
        requestUploadParts_result_fun [of k mp] del: operationResult.simps)
  then show ?thesis ..
next
  case (DeleteFile u)
  have "rawCall fetch env ak sk c =
      await_then (makeRequest fetch env [(''url'', Str u)] ak sk (route c)) (operationResult c)"
    by (simp add: DeleteFile edgeStoreRawSdk_deleteFile_def plain_result await_then_Inr
        del: operationResult.simps)
  then show ?thesis ..
next
  case (ListFiles bn f p)
  have "rawCall fetch env ak sk c =
      await_then (makeRequest fetch env
        [(''bucketName'', Str bn), (''filter'', f), (''pagination'', p)] ak sk (route c))
        (operationResult c)"
    by (simp add: ListFiles edgeStoreRawSdk_listFiles_def plain_result await_then_Inr
        del: operationResult.simps)
  then show ?thesis ..
qed

lemma rawCall_unsent:
  assumes "shapingFails c"
  shows "fst (rawCall fetch env ak sk c) = []"
proof (cases c)
  case (GetToken ctx r)
  with assms show ?thesis by (simp add: getToken_fails_unsent)
qed (insert assms, simp_all)




section \<open>Lemmas on the handle and on the body of \<^verbatim>\<open>getToken\<close>\<close>

lemma initEdgeStoreSdk_returns_handle:
  assumes "resolvedAccessKey env params = Some ak" and "resolvedSecretKey env params = Some sk"
    and "ak \<noteq> []" and "sk \<noteq> []"
  shows "initEdgeStoreSdk fetch env params = Inr (boundSdk fetch env ak sk)"
  using assms by (simp add: initEdgeStoreSdk_def Let_def falsy_def)

lemma boundSdk_named_operations:
  "getToken (boundSdk fetch env ak sk) ctx r = edgeStoreRawSdk_getToken fetch env ak sk ctx r"
  "getFile (boundSdk fetch env ak sk) u = edgeStoreRawSdk_getFile fetch env ak sk u"
  "requestUpload (boundSdk fetch env ak sk) bn bt fi mp =
     edgeStoreRawSdk_requestUpload fetch env ak sk bn bt fi mp"
  "requestUploadParts (boundSdk fetch env ak sk) k mp =
     edgeStoreRawSdk_requestUploadParts fetch env ak sk k mp"
  "deleteFile (boundSdk fetch env ak sk) u = edgeStoreRawSdk_deleteFile fetch env ak sk u"
  by (simp_all add: boundSdk_def)

lemma boundSdk_listFiles:
  "listFiles (boundSdk fetch env ak sk) p =
     edgeStoreRawSdk_listFiles fetch env
       (case lf_accessKey p of None \<Rightarrow> ak | Some a \<Rightarrow> a)
       (case lf_secretKey p of None \<Rightarrow> sk | Some b \<Rightarrow> b)
       (lf_bucketName p) (lf_filter p) (lf_pagination p)"
  by (simp add: boundSdk_def spread_over_def)

lemma getToken_own_entries_body:
  assumes "\<forall>(n, b) \<in> set (buckets r). [] \<notin> set (path (bdef b))"
    and "distinct (map fst (buckets r))"
  shows "edgeStoreRawSdk_getToken fetch env ak sk ctx r =
           await_then
             (makeRequest fetch env
                [(''ctx'', ctx),
                 (''buckets'', Obj (map (\<lambda>(n, b). (n, reqBucketEntry b))
                                      (filter (\<lambda>(n, b). n \<noteq> ''__proto__'') (buckets r))))]
                ak sk ''/get-token'')
             (\<lambda>res. get_prop res ''token'')"
  using reduce_reqBucket_ok [OF assms, of "[]"] by (simp add: edgeStoreRawSdk_getToken_def)

section \<open>The credentials check of \<^verbatim>\<open>initEdgeStoreSdk\<close>\<close>

text \<open>C1. When an access key or a secret key is absent both from the arguments and from
  the environment (\<^verbatim>\<open>EDGE_STORE_ACCESS_KEY\<close>, \<^verbatim>\<open>EDGE_STORE_SECRET_KEY\<close>), the
  factory fails with the credentials error and returns no handle.\<close>

theorem initEdgeStoreSdk_missing_key:
  assumes "(case params of None \<Rightarrow> None | Some p \<Rightarrow> paramAccessKey p) = None
             \<and> env ''EDGE_STORE_ACCESS_KEY'' = None
           \<or> (case params of None \<Rightarrow> None | Some p \<Rightarrow> paramSecretKey p) = None
             \<and> env ''EDGE_STORE_SECRET_KEY'' = None"
  shows "initEdgeStoreSdk fetch env params = Inl EdgeStoreCredentialsError"
proof -
  from assms have "resolvedAccessKey env params = None \<or> resolvedSecretKey env params = None"
    by (auto simp: resolvedAccessKey_def resolvedSecretKey_def destructure_default_def)
  then have "falsy (resolvedAccessKey env params) \<or> falsy (resolvedSecretKey env params)"
    by (auto simp: falsy_def)
  then show ?thesis by (simp add: initEdgeStoreSdk_def Let_def)
qed

theorem initEdgeStoreSdk_missing_key_witness:
  "initEdgeStoreSdk (respond ok_response) unset_env
     (Some \<lparr>paramAccessKey = Some ''ak'', paramSecretKey = None\<rparr>) = Inl EdgeStoreCredentialsError"
  using initEdgeStoreSdk_missing_key [of "Some \<lparr>paramAccessKey = Some ''ak'', paramSecretKey = None\<rparr>" unset_env "respond ok_response"]
  by (simp add: unset_env_def)

text \<open>C9. An empty string given as access key or as secret key is kept: the environment
  default applies to an undefined argument only. The factory then fails with the
  credentials error, whatever the environment holds.\<close>

theorem initEdgeStoreSdk_empty_key_not_defaulted:
  "resolvedAccessKey env (Some \<lparr>paramAccessKey = Some [], paramSecretKey = s\<rparr>) = Some []
   \<and> initEdgeStoreSdk fetch env (Some \<lparr>paramAccessKey = Some [], paramSecretKey = s\<rparr>)
       = Inl EdgeStoreCredentialsError
   \<and> resolvedSecretKey env (Some \<lparr>paramAccessKey = a, paramSecretKey = Some []\<rparr>) = Some []
   \<and> initEdgeStoreSdk fetch env (Some \<lparr>paramAccessKey = a, paramSecretKey = Some []\<rparr>)
       = Inl EdgeStoreCredentialsError"
  by (simp add: initEdgeStoreSdk_def Let_def resolvedAccessKey_def resolvedSecretKey_def
      destructure_default_def falsy_def)

theorem initEdgeStoreSdk_empty_key_not_defaulted_witness:
  "full_env ''EDGE_STORE_ACCESS_KEY'' = Some ''envAccess''
   \<and> full_env ''EDGE_STORE_SECRET_KEY'' = Some ''envSecret''
   \<and> initEdgeStoreSdk (respond ok_response) full_env
        (Some \<lparr>paramAccessKey = Some [], paramSecretKey = None\<rparr>) = Inl EdgeStoreCredentialsError
   \<and> initEdgeStoreSdk (respond ok_response) full_env
        (Some \<lparr>paramAccessKey = None, paramSecretKey = Some []\<rparr>) = Inl EdgeStoreCredentialsError"
  using initEdgeStoreSdk_empty_key_not_defaulted [of full_env None "respond ok_response" None]
  by (simp add: full_env_def)

text \<open>C8. The handle's \<^verbatim>\<open>listFiles\<close> does not keep the bound credentials when its
  argument has an \<^verbatim>\<open>accessKey\<close> property of its own. For the handle made from the keys
  \<open>ak\<close> and \<open>sk\<close> and an argument carrying \<open>accessKey: evil\<close>, the request is
  authorised as \<open>evil:sk\<close>, whereas the raw operation called with the bound keys and the
  same bucket, filter and pagination authorises it as \<open>ak:sk\<close>.\<close>

theorem listFiles_spread_overrides_credentials:
  "initEdgeStoreSdk (respond ok_response) unset_env
     (Some \<lparr>paramAccessKey = Some ''ak'', paramSecretKey = Some ''sk''\<rparr>)
     = Inr (boundSdk (respond ok_response) unset_env ''ak'' ''sk'')
   \<and> map req_headers
       (fst (listFiles (boundSdk (respond ok_response) unset_env ''ak'' ''sk'') overriding_params))
     = [[(''Content-Type'', ''application/json''), (''Authorization'', ''Basic ZXZpbDpzaw=='')]]
   \<and> map req_headers
       (fst (edgeStoreRawSdk_listFiles (respond ok_response) unset_env ''ak'' ''sk''
               (lf_bucketName overriding_params) (lf_filter overriding_params)
               (lf_pagination overriding_params)))
     = [[(''Content-Type'', ''application/json''), (''Authorization'', ''Basic YWs6c2s='')]]"
proof -
  have a: "resolvedAccessKey unset_env
      (Some \<lparr>paramAccessKey = Some ''ak'', paramSecretKey = Some ''sk''\<rparr>) = Some ''ak''"
    by (simp add: resolvedAccessKey_def destructure_default_def)
  have b: "resolvedSecretKey unset_env
      (Some \<lparr>paramAccessKey = Some ''ak'', paramSecretKey = Some ''sk''\<rparr>) = Some ''sk''"
    by (simp add: resolvedSecretKey_def destructure_default_def)
  have init: "initEdgeStoreSdk (respond ok_response) unset_env
     (Some \<lparr>paramAccessKey = Some ''ak'', paramSecretKey = Some ''sk''\<rparr>)
     = Inr (boundSdk (respond ok_response) unset_env ''ak'' ''sk'')"
    by (rule initEdgeStoreSdk_returns_handle [OF a b]) simp_all
  have handle: "map req_headers
       (fst (listFiles (boundSdk (respond ok_response) unset_env ''ak'' ''sk'') overriding_params))
     = [[(''Content-Type'', ''application/json''), (''Authorization'', ''Basic ZXZpbDpzaw=='')]]"
    by (simp add: boundSdk_listFiles overriding_params_def edgeStoreRawSdk_listFiles_def
        makeRequest_sent base64_digit_def base64_alphabet_def)
  have raw: "map req_headers
       (fst (edgeStoreRawSdk_listFiles (respond ok_response) unset_env ''ak'' ''sk''
               (lf_bucketName overriding_params) (lf_filter overriding_params)
               (lf_pagination overriding_params)))
     = [[(''Content-Type'', ''application/json''), (''Authorization'', ''Basic YWs6c2s='')]]"
    by (simp add: edgeStoreRawSdk_listFiles_def makeRequest_sent base64_digit_def
        base64_alphabet_def)
  from init handle raw show ?thesis by (intro conjI)
qed

section \<open>Responses and requests of the six operations\<close>

text \<open>C2, as the code has it. When an operation has sent its request and the network answers
  it: a status outside 200 to 299 makes the operation fail with an error whose message is
  the route and the raw body text; a 2xx answer whose body is not JSON makes it fail with
  the parser's error; a 2xx answer whose body parses hands the parsed value, unvalidated, to
  the operation, which returns it (getFile, deleteFile, listFiles) or the properties it
  reads from it (getToken, requestUpload, requestUploadParts).\<close>

theorem operation_outcome_of_response:
  assumes "fst (rawCall fetch env ak sk c) = [req]" and "fetch req = Inr res"
  shows "snd (rawCall fetch env ak sk c) =
           (if \<not> ok res
            then Inl (Error (''Failed to make request to '' @ route c @ '': '' @ bodyText res))
            else case json res of
                   None \<Rightarrow> Inl SyntaxError
                 | Some v \<Rightarrow> operationResult c v)"
proof -
  have "\<not> shapingFails c"
  proof
    assume "shapingFails c"
    then have "fst (rawCall fetch env ak sk c) = []" by (rule rawCall_unsent)
    with assms(1) show False by simp
  qed
  then obtain b where shape: "rawCall fetch env ak sk c =
      await_then (makeRequest fetch env b ak sk (route c)) (operationResult c)"
    using rawCall_shape by blast
  with assms(1) have "fst (makeRequest fetch env b ak sk (route c)) = [req]"
    by (simp add: await_then_sent)
  from awaited_outcome [OF this assms(2)] show ?thesis
    unfolding shape .
qed

theorem operation_outcome_of_response_witness:
  "snd (rawCall (respond failed_response) unset_env ''ak'' ''sk'' (DeleteFile ''u''))
     = Inl (Error ''Failed to make request to /delete-file: Forbidden'')
   \<and> snd (rawCall (respond token_response) unset_env ''ak'' ''sk'' (GetToken Null sample_router))
     = Inr (Str ''t'')"
proof -
  have f: "fst (rawCall (respond failed_response) unset_env ''ak'' ''sk'' (DeleteFile ''u''))
      = [\<lparr>req_url = API_ENDPOINT unset_env @ ''/delete-file'', req_method = ''POST'',
           req_body = stringify_object [(''url'', Str ''u'')],
           req_headers = [(''Content-Type'', ''application/json''),
                          (''Authorization'', ''Basic '' @ base64 (''ak'' @ '':'' @ ''sk''))]\<rparr>]"
    by (simp add: edgeStoreRawSdk_deleteFile_def makeRequest_sent)
  have r: "respond failed_response q = Inr failed_response" for q
    by (simp add: respond_def)
  have g: "\<exists>b. fst (rawCall (respond token_response) unset_env ''ak'' ''sk'' (GetToken Null sample_router))
      = [\<lparr>req_url = API_ENDPOINT unset_env @ ''/get-token'', req_method = ''POST'',
           req_body = b,
           req_headers = [(''Content-Type'', ''application/json''),
                          (''Authorization'', ''Basic '' @ base64 (''ak'' @ '':'' @ ''sk''))]\<rparr>]"
    by (simp add: edgeStoreRawSdk_getToken_def sample_router_def await_then_sent makeRequest_sent)
  then obtain b where g': "fst (rawCall (respond token_response) unset_env ''ak'' ''sk'' (GetToken Null sample_router))
      = [\<lparr>req_url = API_ENDPOINT unset_env @ ''/get-token'', req_method = ''POST'',
           req_body = b,
           req_headers = [(''Content-Type'', ''application/json''),
                          (''Authorization'', ''Basic '' @ base64 (''ak'' @ '':'' @ ''sk''))]\<rparr>]" ..
  have r': "respond token_response q = Inr token_response" for q
    by (simp add: respond_def)
  show ?thesis
    using operation_outcome_of_response [OF f r] operation_outcome_of_response [OF g' r']
    by (simp add: ok_def failed_response_def token_response_def)
qed

text \<open>A 2xx answer with an empty body: \<^verbatim>\<open>getFile\<close> fails, with a
  \<^verbatim>\<open>SyntaxError\<close>.\<close>

theorem operation_outcome_counterexample:
  "ok empty_response
   \<and> snd (rawCall (respond empty_response) unset_env ''ak'' ''sk'' (GetFile ''u''))
       = Inl SyntaxError"
  by (simp add: ok_def empty_response_def respond_def edgeStoreRawSdk_getFile_def
      makeRequest_def Let_def)

text \<open>C3, as the code has it. Every operation call, other than a \<^verbatim>\<open>getToken\<close>
  over a router with an empty path-parameter object, issues exactly one request: a POST to
  the base endpoint (\<^verbatim>\<open>EDGE_STORE_API_ENDPOINT\<close> when set, the production URL
  otherwise) followed by the operation's route, with the JSON content type and the Basic
  authorization header of the two keys.\<close>

theorem operation_sends_one_post:
  assumes "\<not> shapingFails c"
  shows "map (\<lambda>q. (req_url q, req_method q, req_headers q)) (fst (rawCall fetch env ak sk c)) =
           [((case env ''EDGE_STORE_API_ENDPOINT'' of
                None \<Rightarrow> ''https://api.edgestore.dev''
              | Some v \<Rightarrow> v) @ route c,
             ''POST'',
             [(''Content-Type'', ''application/json''),
              (''Authorization'', ''Basic '' @ base64 (ak @ '':'' @ sk))])]"
proof -
  from assms obtain b where shape: "rawCall fetch env ak sk c =
      await_then (makeRequest fetch env b ak sk (route c)) (operationResult c)"
    using rawCall_shape by blast
  show ?thesis
    unfolding shape by (simp add: await_then_sent makeRequest_sent API_ENDPOINT_def)
qed

theorem operation_sends_one_post_witness:
  "map (\<lambda>q. (req_url q, req_method q, req_headers q))
     (fst (rawCall (respond ok_response) full_env ''ak'' ''sk'' (GetToken Null sample_router)))
   = [(''http://localhost:3001/get-token'', ''POST'',
       [(''Content-Type'', ''application/json''), (''Authorization'', ''Basic YWs6c2s='')])]
   \<and> map (\<lambda>q. (req_url q, req_method q, req_headers q))
     (fst (rawCall (respond ok_response) unset_env ''ak'' ''sk'' (ListFiles ''images'' Undefined Undefined)))
   = [(''https://api.edgestore.dev/list-files'', ''POST'',
       [(''Content-Type'', ''application/json''), (''Authorization'', ''Basic YWs6c2s='')])]"
proof -
  have a: "\<not> shapingFails (GetToken Null sample_router)"
    by (simp add: hasEmptyPathParam_def sample_router_def)
  have b: "\<not> shapingFails (ListFiles ''images'' Undefined Undefined)" by simp
  show ?thesis
    using operation_sends_one_post [OF a, of "respond ok_response" full_env "''ak''" "''sk''"]
      operation_sends_one_post [OF b, of "respond ok_response" unset_env "''ak''" "''sk''"]
    by (simp add: full_env_def unset_env_def base64_digit_def base64_alphabet_def)
qed

text \<open>A \<^verbatim>\<open>getToken\<close> over a router whose bucket has an empty path-parameter
  object issues no request at all.\<close>

theorem operation_sends_one_post_counterexample:
  "fst (rawCall (respond ok_response) unset_env ''ak'' ''sk'' (GetToken Null broken_router)) = []"
  by (simp add: edgeStoreRawSdk_getToken_def broken_router_def)

section \<open>\<^verbatim>\<open>getToken\<close>\<close>

text \<open>C4. If some bucket of the router lists an empty path-parameter object,
  \<^verbatim>\<open>getToken\<close> fails with \<^verbatim>\<open>Missing path param\<close> and no request is sent.\<close>

theorem getToken_missing_path_param:
  assumes "(n, b) \<in> set (buckets r)" and "[] \<in> set (path (bdef b))"
  shows "edgeStoreRawSdk_getToken fetch env ak sk ctx r = ([], Inl (Error ''Missing path param''))"
  using reduce_reqBucket_missing [OF assms] by (simp add: edgeStoreRawSdk_getToken_def)

theorem getToken_missing_path_param_witness:
  "edgeStoreRawSdk_getToken (respond ok_response) unset_env ''ak'' ''sk'' (Obj [])
     \<lparr>buckets = [(''docs'', \<lparr>bdef = \<lparr>path = [[(''author'', \<lambda>u. ''me'')], []], accessControl = Null\<rparr>\<rparr>)]\<rparr>
   = ([], Inl (Error ''Missing path param''))"
  by (rule getToken_missing_path_param
        [of "''docs''" "\<lparr>bdef = \<lparr>path = [[(''author'', \<lambda>u. ''me'')], []], accessControl = Null\<rparr>\<rparr>"])
     simp_all

text \<open>C5. A bucket named \<^verbatim>\<open>__proto__\<close> gets no entry in the body. The router below
  has two buckets, \<^verbatim>\<open>images\<close> and \<^verbatim>\<open>__proto__\<close>, each with one non-empty
  path-parameter object; \<^verbatim>\<open>getToken\<close> posts a body whose \<^verbatim>\<open>buckets\<close> holds the
  entry of \<^verbatim>\<open>images\<close> only.\<close>

theorem getToken_drops_proto_bucket:
  "\<not> hasEmptyPathParam proto_router
   \<and> map fst (buckets proto_router) = [''images'', ''__proto__'']
   \<and> map req_body (fst (edgeStoreRawSdk_getToken (respond token_response) unset_env ''ak'' ''sk''
                          Null proto_router))
     = [stringify_object
          [(''ctx'', Null),
           (''buckets'', Obj [(''images'',
              Obj [(''path'', Arr [Obj [(''key'', Str ''author''), (''value'', Str ''me'')]]),
                   (''accessControl'', Null)])])]]"
proof -
  have a: "\<not> hasEmptyPathParam proto_router"
    by (simp add: hasEmptyPathParam_def proto_router_def)
  have b: "map fst (buckets proto_router) = [''images'', ''__proto__'']"
    by (simp add: proto_router_def)
  have c: "map req_body (fst (edgeStoreRawSdk_getToken (respond token_response) unset_env
                                ''ak'' ''sk'' Null proto_router))
     = [stringify_object
          [(''ctx'', Null),
           (''buckets'', Obj [(''images'',
              Obj [(''path'', Arr [Obj [(''key'', Str ''author''), (''value'', Str ''me'')]]),
                   (''accessControl'', Null)])])]]"
    by (simp add: edgeStoreRawSdk_getToken_def proto_router_def await_then_sent makeRequest_sent)
  from a b c show ?thesis by (intro conjI)
qed



section \<open>\<^verbatim>\<open>requestUpload\<close> and \<^verbatim>\<open>listFiles\<close>\<close>



text \<open>C7. The body that \<^verbatim>\<open>listFiles\<close> posts to \<^verbatim>\<open>/list-files\<close> is the
  serialised object of \<^verbatim>\<open>bucketName\<close>, \<^verbatim>\<open>filter\<close> and \<^verbatim>\<open>pagination\<close>:
  the text of each of the two arguments stands in it exactly as \<^verbatim>\<open>JSON.stringify\<close>
  gives it, and an absent argument leaves no entry.\<close>

theorem listFiles_forwards_filter_and_pagination:
  "map (\<lambda>q. (req_url q, req_body q))
     (fst (edgeStoreRawSdk_listFiles fetch env ak sk bucketName f p)) =
     [(API_ENDPOINT env @ ''/list-files'',
       ''{'' @ join '',''
          ((quote ''bucketName'' @ '':'' @ quote bucketName)
           # (case JSON_stringify f of None \<Rightarrow> [] | Some s \<Rightarrow> [quote ''filter'' @ '':'' @ s])
           @ (case JSON_stringify p of None \<Rightarrow> []
              | Some s \<Rightarrow> [quote ''pagination'' @ '':'' @ s]))
        @ ''}'')]"
  by (simp add: edgeStoreRawSdk_listFiles_def makeRequest_sent stringify_object_def
      split: option.splits)

theorem listFiles_forwards_filter_and_pagination_witness:
  "map (\<lambda>q. (req_url q, req_body q))
     (fst (edgeStoreRawSdk_listFiles (respond ok_response) unset_env ''ak'' ''sk'' ''images''
        (Obj [(''metadata'', Obj [(''type'', Str ''post'')])]) Undefined)) =
     [(''https://api.edgestore.dev/list-files'',
       ''{'' @ quote ''bucketName'' @ '':'' @ quote ''images'' @ '','' @ quote ''filter'' @ '':''
         @ ''{'' @ quote ''metadata'' @ '':'' @ ''{'' @ quote ''type'' @ '':'' @ quote ''post''
         @ ''}}}'')]
   \<and> map (\<lambda>q. (req_url q, req_body q))
     (fst (edgeStoreRawSdk_listFiles (respond ok_response) unset_env ''ak'' ''sk'' ''images''
        Undefined (Obj [(''currentPage'', Num 2), (''pageSize'', Num 10)]))) =
     [(''https://api.edgestore.dev/list-files'',
       ''{'' @ quote ''bucketName'' @ '':'' @ quote ''images'' @ '','' @ quote ''pagination'' @ '':''
         @ ''{'' @ quote ''currentPage'' @ '':2,'' @ quote ''pageSize'' @ '':10}}'')]"
  using listFiles_forwards_filter_and_pagination
          [of "respond ok_response" unset_env "''ak''" "''sk''" "''images''"
              "Obj [(''metadata'', Obj [(''type'', Str ''post'')])]" Undefined]
        listFiles_forwards_filter_and_pagination
          [of "respond ok_response" unset_env "''ak''" "''sk''" "''images''"
              Undefined "Obj [(''currentPage'', Num 2), (''pageSize'', Num 10)]"]
  by (simp add: API_ENDPOINT_def unset_env_def show_int_def show_nat.simps digit_def)

end
